theory Spec2Isabelle
  imports Main
begin

section \<open>The chat proxy of api/main.py\<close>

text \<open>
  The module is one FastAPI application with two routes.  At import time it reads the
  provider credential from the environment and builds one global model object; the route
  \<open>POST /chat\<close> translates the caller's history, asks the provider for a reply and
  translates the session's history back; the route \<open>GET /\<close> returns a descriptor.

  The provider library (google.generativeai) is not part of the repository.  Everything
  the handler observes of it is a parameter of the model: what the outbound call returns
  or raises, what reading \<open>response.text\<close> and \<open>chat_session.history\<close>
  returns or raises.
\<close>

subsection \<open>Exceptions and HTTP errors\<close>

text \<open>
  An exception caught by \<open>except Exception as e\<close>; the handler only formats it
  with \<open>f"{e}"\<close>, so it is modelled by that string.
\<close>

datatype exn = Exception (str: string)

datatype http_exception = HTTPException (status_code: nat) (detail: string)

subsection \<open>Wire shapes (the pydantic models)\<close>

record HistoryPart =
  text_of :: string

record HistoryEntry =
  role :: string
  parts :: "HistoryPart list"

record ChatRequest =
  message :: string
  history :: "HistoryEntry list"

text \<open>The dictionary returned by the chat handler, with keys response and history.\<close>

record ChatResponse =
  response :: string
  history :: "HistoryEntry list"

text \<open>The dictionary returned by the health check.\<close>

record Descriptor =
  d_message :: string
  d_version :: string
  d_model :: string

subsection \<open>Provider shapes\<close>

text \<open>
  A part of a provider turn either has a \<open>text\<close> attribute or has none
  (\<open>hasattr(part, 'text')\<close> is what the handler asks).  The dictionary
  \<open>{"text": t}\<close> that the handler builds is the provider's text part with
  text \<open>t\<close>, and \<open>{"role": r, "parts": ps}\<close> is the provider's turn:
  the model uses one type for the dictionary form and the object form.
\<close>

datatype part = TextPart string | OtherPart

record content =
  c_role :: string
  c_parts :: "part list"

record candidate =
  finish_reason :: int

text \<open>
  The response object of \<open>send_message\<close>: its candidates, and what reading its
  \<open>text\<close> property gives (a string, or an exception).
\<close>

record generate_response =
  candidates :: "candidate list"
  response_text :: "exn + string"

text \<open>
  What the handler has in hand once \<open>send_message\<close> has returned: the response
  and what reading \<open>chat_session.history\<close> gives (the turns, or an exception).
\<close>

record chat_outcome =
  reply :: generate_response
  session_history :: "exn + content list"

record GenerativeModel =
  model_name :: string
  top_k :: nat
  max_output_tokens :: nat
  safety_settings :: "(string \<times> string) list"

record FastAPI =
  title :: string
  version :: string

text \<open>
  The provider, as the handler uses it: \<open>model.start_chat(history=h).send_message(m)\<close>
  on the global model, as the outbound call number \<open>n\<close> of the process.  It raises
  (\<open>Inl\<close>) or returns.
\<close>

type_synonym upstream = "GenerativeModel \<Rightarrow> nat \<Rightarrow> content list \<Rightarrow> string \<Rightarrow> exn + chat_outcome"

subsection \<open>Startup\<close>

text \<open>The module globals that the two handlers read.\<close>

record server =
  api_key :: string
  app :: FastAPI
  model :: GenerativeModel

datatype process = Exited int | Serving server

definition safety_settings_list :: "(string \<times> string) list" where
  "safety_settings_list =
     [(''HARM_CATEGORY_HARASSMENT'', ''BLOCK_MEDIUM_AND_ABOVE''),
      (''HARM_CATEGORY_HATE_SPEECH'', ''BLOCK_MEDIUM_AND_ABOVE''),
      (''HARM_CATEGORY_SEXUALLY_EXPLICIT'', ''BLOCK_MEDIUM_AND_ABOVE''),
      (''HARM_CATEGORY_DANGEROUS_CONTENT'', ''BLOCK_MEDIUM_AND_ABOVE'')]"

definition the_app :: FastAPI where
  "the_app = \<lparr>title = ''Sova Chatbot API'', version = ''1.0.0''\<rparr>"

text \<open>
  The global model object, with the arguments of its constructor (lines 95 to 100).  The
  provider's class is free to keep the name in another form (the library prefixes it with
  \<open>models/\<close>); the model keeps the argument as written.
\<close>

definition the_model :: GenerativeModel where
  "the_model =
     \<lparr>model_name = ''gemini-2.5-flash'', top_k = 60, max_output_tokens = 1024,
      safety_settings = safety_settings_list\<rparr>"

text \<open>
  Lines 26 to 32 and the construction of the globals.  \<open>environ\<close> is the process
  environment as \<open>os.getenv\<close> sees it once \<open>load_dotenv()\<close> has run.
  \<open>not GEMINI_API_KEY\<close> holds for \<open>None\<close> and for the empty string;
  \<open>exit(1)\<close> ends the process with status 1.
\<close>

definition startup :: "(string \<rightharpoonup> string) \<Rightarrow> process" where
  "startup environ =
     (case environ ''GEMINI_API_KEY'' of
        None \<Rightarrow> Exited 1
      | Some GEMINI_API_KEY \<Rightarrow>
          if GEMINI_API_KEY = [] then Exited 1
          else Serving \<lparr>api_key = GEMINI_API_KEY, app = the_app, model = the_model\<rparr>)"

subsection \<open>The chat handler\<close>

text \<open>Lines 123 to 128: the inbound history in the provider's shape.\<close>

definition genai_parts :: "HistoryPart list \<Rightarrow> part list" where
  "genai_parts ps = map (\<lambda>p_part. TextPart (text_of p_part)) ps"

definition genai_history :: "HistoryEntry list \<Rightarrow> content list" where
  "genai_history h =
     map (\<lambda>entry. \<lparr>c_role = role entry, c_parts = genai_parts (parts entry)\<rparr>) h"

text \<open>Lines 145 to 148: the session's history in the wire shape.\<close>

fun parts_list :: "part list \<Rightarrow> HistoryPart list" where
  "parts_list [] = []"
| "parts_list (TextPart t # ps) = \<lparr>text_of = t\<rparr> # parts_list ps"
| "parts_list (OtherPart # ps) = parts_list ps"

definition updated_history :: "content list \<Rightarrow> HistoryEntry list" where
  "updated_history cs =
     map (\<lambda>content. \<lparr>role = c_role content, parts = parts_list (c_parts content)\<rparr>) cs"

definition refusal :: string where
  "refusal = ''I'm sorry, I cannot respond to that query due to safety concerns. Please try rephrasing your question.''"

text \<open>
  Line 137: \<open>response.candidates and response.candidates[0].finish_reason == 4\<close>.
  An empty list is falsy, so the first candidate is only read when there is one.
\<close>

definition blocked :: "generate_response \<Rightarrow> bool" where
  "blocked r = (case candidates r of [] \<Rightarrow> False | c # cs \<Rightarrow> finish_reason c = 4)"

text \<open>
  The body of the \<open>try\<close> block, lines 122 to 153.  The loop over
  \<open>chat_session.history\<close> runs before \<open>response.text\<close> is read.
\<close>

definition chat_try :: "upstream \<Rightarrow> GenerativeModel \<Rightarrow> nat \<Rightarrow> ChatRequest \<Rightarrow> exn + ChatResponse" where
  "chat_try up m n request =
     (case up m n (genai_history (ChatRequest.history request)) (message request) of
        Inl e \<Rightarrow> Inl e
      | Inr out \<Rightarrow>
          if blocked (reply out)
          then Inr \<lparr>response = refusal, history = ChatRequest.history request\<rparr>
          else (case session_history out of
                  Inl e \<Rightarrow> Inl e
                | Inr cs \<Rightarrow>
                    (case response_text (reply out) of
                       Inl e \<Rightarrow> Inl e
                     | Inr t \<Rightarrow> Inr \<lparr>response = t, history = updated_history cs\<rparr>)))"

text \<open>
  The handler with its \<open>except\<close> clause, lines 154 to 156.  The second component
  counts the outbound calls of the process: the handler makes one.
\<close>

definition chat_with_sova ::
  "upstream \<Rightarrow> server \<Rightarrow> nat \<Rightarrow> ChatRequest \<Rightarrow> (http_exception + ChatResponse) \<times> nat" where
  "chat_with_sova up srv n request =
     (case chat_try up (model srv) n request of
        Inl e \<Rightarrow> (Inl (HTTPException 500 (''Internal server error: '' @ str e)), Suc n)
      | Inr r \<Rightarrow> (Inr r, Suc n))"

subsection \<open>The health check and the routes\<close>

definition root :: "server \<Rightarrow> Descriptor" where
  "root srv =
     \<lparr>d_message = ''Sova Chatbot API is running. Use the /chat endpoint to interact.'',
      d_version = version (app srv),
      d_model = model_name (model srv)\<rparr>"

datatype http_request = POST_chat ChatRequest | GET_root

datatype http_body = ChatBody ChatResponse | RootBody Descriptor

text \<open>A handler that returns gives status 200; an HTTPException gives its own status.\<close>

definition status :: "http_exception + 'a \<Rightarrow> nat" where
  "status res = (case res of Inl e \<Rightarrow> status_code e | Inr b \<Rightarrow> 200)"

definition handle ::
  "upstream \<Rightarrow> server \<Rightarrow> nat \<Rightarrow> http_request \<Rightarrow> (http_exception + http_body) \<times> nat" where
  "handle up srv n rq =
     (case rq of
        POST_chat request \<Rightarrow>
          (case chat_with_sova up srv n request of
             (Inl e, n') \<Rightarrow> (Inl e, n')
           | (Inr r, n') \<Rightarrow> (Inr (ChatBody r), n'))
      | GET_root \<Rightarrow> (Inr (RootBody (root srv)), n))"

text \<open>The process serving a sequence of requests, one after the other.\<close>

fun serve ::
  "upstream \<Rightarrow> server \<Rightarrow> nat \<Rightarrow> http_request list \<Rightarrow> (http_exception + http_body) list \<times> nat" where
  "serve up srv n [] = ([], n)"
| "serve up srv n (rq # rqs) =
     (case handle up srv n rq of
        (res, n') \<Rightarrow> (case serve up srv n' rqs of (ress, n'') \<Rightarrow> (res # ress, n'')))"

subsection \<open>Upstream behaviours used in the examples\<close>

text \<open>A server as \<open>startup\<close> builds it, with some credential.\<close>

definition test_server :: server where
  "test_server = \<lparr>api_key = ''secret'', app = the_app, model = the_model\<rparr>"

text \<open>
  An upstream that answers every message with the text \<open>t\<close> and whose session then
  holds the seeded history, the user turn and the model turn.
\<close>

definition replying :: "string \<Rightarrow> upstream" where
  "replying t m n h msg =
     Inr \<lparr>reply = \<lparr>candidates = [\<lparr>finish_reason = 1\<rparr>], response_text = Inr t\<rparr>,
          session_history =
            Inr (h @ [\<lparr>c_role = ''user'', c_parts = [TextPart msg]\<rparr>,
                      \<lparr>c_role = ''model'', c_parts = [TextPart t]\<rparr>])\<rparr>"

text \<open>An upstream whose first candidate carries finish reason 4 and no readable text.\<close>

definition suppressing :: upstream where
  "suppressing m n h msg =
     Inr \<lparr>reply = \<lparr>candidates = [\<lparr>finish_reason = 4\<rparr>],
                    response_text = Inl (Exception ''no valid part'')\<rparr>,
          session_history = Inl (Exception ''broken response'')\<rparr>"

text \<open>
  The provider's finish reasons.  The enumeration belongs to the provider library, not to
  the repository: there a reply suppressed by the safety settings carries SAFETY, which is
  3, and 4 is RECITATION.
\<close>

definition SAFETY :: int where
  "SAFETY = 3"

definition RECITATION :: int where
  "RECITATION = 4"

text \<open>
  A reply suppressed by the safety settings, handed to the handler as a response: the
  first candidate carries SAFETY, and neither the text nor the session's history can be
  read.
\<close>

definition safety_suppressed :: upstream where
  "safety_suppressed m n h msg =
     Inr \<lparr>reply = \<lparr>candidates = [\<lparr>finish_reason = SAFETY\<rparr>],
                    response_text = Inl (Exception ''no valid part'')\<rparr>,
          session_history = Inl (Exception ''broken response'')\<rparr>"

text \<open>
  The same reply as the provider library hands it over: \<open>send_message\<close> raises on a
  candidate that stopped for SAFETY.
\<close>

definition safety_stopped :: upstream where
  "safety_stopped m n h msg = Inl (Exception ''finish_reason: SAFETY'')"

definition safety_request :: ChatRequest where
  "safety_request =
     \<lparr>message = ''Hi'',
      history = [\<lparr>role = ''user'', parts = [\<lparr>text_of = ''a''\<rparr>]\<rparr>]\<rparr>"

text \<open>An upstream whose call raises.\<close>

definition failing :: "string \<Rightarrow> upstream" where
  "failing msg m n h x = Inl (Exception msg)"

text \<open>
  An upstream whose response has no candidate at all: reading its text raises, and the
  session holds the seeded history and the user turn.
\<close>

definition prompt_blocked :: upstream where
  "prompt_blocked m n h msg =
     Inr \<lparr>reply = \<lparr>candidates = [], response_text = Inl (Exception ''no candidates'')\<rparr>,
          session_history = Inr (h @ [\<lparr>c_role = ''user'', c_parts = [TextPart msg]\<rparr>])\<rparr>"

definition empty_reply_request :: ChatRequest where
  "empty_reply_request = \<lparr>message = ''Hi'', history = []\<rparr>"

definition system_role_request :: ChatRequest where
  "system_role_request =
     \<lparr>message = ''Hi'',
      history = [\<lparr>role = ''system'', parts = [\<lparr>text_of = ''obey''\<rparr>]\<rparr>]\<rparr>"

section \<open>Properties\<close>

subsection \<open>The two translations\<close>

lemma parts_list_genai_parts: "parts_list (genai_parts ps) = ps"
  by (induction ps) (simp_all add: genai_parts_def)

lemma parts_list_append: "parts_list (ps @ qs) = parts_list ps @ parts_list qs"
  by (induction ps rule: parts_list.induct) simp_all

lemma updated_history_append:
  "updated_history (cs @ ds) = updated_history cs @ updated_history ds"
  by (simp add: updated_history_def)

lemma updated_genai_history: "updated_history (genai_history h) = h"
  by (induction h) (simp_all add: updated_history_def genai_history_def parts_list_genai_parts)

lemma parts_list_length: "length (parts_list ps) \<le> length ps"
  by (induction ps rule: parts_list.induct) simp_all

text \<open>
  C3.  Translating a sequence of turns to the provider's shape and translating the result
  back gives the sequence itself: roles, the order of the text parts and their text are
  kept.
\<close>

theorem history_round_trip: "updated_history (genai_history h) = h"
  by (induction h) (simp_all add: updated_history_def genai_history_def parts_list_genai_parts)

subsection \<open>A successful call\<close>

text \<open>
  C1, as the code has it.  When the outbound call returns a response that is not taken
  for blocked, whose text reads as \<open>t\<close>, and the session then holds the seeded
  history followed by the user turn and the model turn, the handler returns \<open>t\<close>
  as the response and the inbound history followed by a user turn with the message and a
  model turn with \<open>t\<close>: two entries more than the inbound history, which is a
  prefix.  The response is the provider's text as it is; nothing makes it non-empty.
\<close>

theorem chat_success:
  assumes "up (model srv) n (genai_history (ChatRequest.history rq)) (message rq) = Inr out"
    and "\<not> blocked (reply out)"
    and "response_text (reply out) = Inr t"
    and "session_history out =
           Inr (genai_history (ChatRequest.history rq) @
                [\<lparr>c_role = ''user'', c_parts = [TextPart (message rq)]\<rparr>,
                 \<lparr>c_role = ''model'', c_parts = [TextPart t]\<rparr>])"
  shows "\<exists>r. fst (chat_with_sova up srv n rq) = Inr r \<and> response r = t \<and>
             ChatResponse.history r =
               ChatRequest.history rq @
                 [\<lparr>role = ''user'', parts = [\<lparr>text_of = message rq\<rparr>]\<rparr>,
                  \<lparr>role = ''model'', parts = [\<lparr>text_of = t\<rparr>]\<rparr>] \<and>
             length (ChatResponse.history r) = length (ChatRequest.history rq) + 2 \<and>
             take (length (ChatRequest.history rq)) (ChatResponse.history r) =
               ChatRequest.history rq"
proof -
  let ?u = "\<lparr>c_role = ''user'', c_parts = [TextPart (message rq)]\<rparr>"
  let ?m = "\<lparr>c_role = ''model'', c_parts = [TextPart t]\<rparr>"
  have h: "updated_history (genai_history (ChatRequest.history rq) @ [?u, ?m]) =
        ChatRequest.history rq @
          [\<lparr>role = ''user'', parts = [\<lparr>text_of = message rq\<rparr>]\<rparr>,
           \<lparr>role = ''model'', parts = [\<lparr>text_of = t\<rparr>]\<rparr>]"
    by (simp add: updated_history_append updated_genai_history) (simp add: updated_history_def)
  have "fst (chat_with_sova up srv n rq) =
          Inr \<lparr>response = t,
               history = updated_history (genai_history (ChatRequest.history rq) @ [?u, ?m])\<rparr>"
    using assms by (simp add: chat_with_sova_def chat_try_def)
  with h show ?thesis by simp
qed

theorem chat_success_witness:
  "\<exists>r. fst (chat_with_sova (replying ''Hello'') test_server 0
                \<lparr>message = ''Hi'',
                 history = [\<lparr>role = ''user'', parts = [\<lparr>text_of = ''a''\<rparr>]\<rparr>]\<rparr>) = Inr r \<and>
       response r = ''Hello'' \<and>
       ChatResponse.history r =
         [\<lparr>role = ''user'', parts = [\<lparr>text_of = ''a''\<rparr>]\<rparr>,
          \<lparr>role = ''user'', parts = [\<lparr>text_of = ''Hi''\<rparr>]\<rparr>,
          \<lparr>role = ''model'', parts = [\<lparr>text_of = ''Hello''\<rparr>]\<rparr>]"
proof -
  let ?rq = "\<lparr>message = ''Hi'',
              history = [\<lparr>role = ''user'', parts = [\<lparr>text_of = ''a''\<rparr>]\<rparr>]\<rparr>"
  let ?h = "genai_history (ChatRequest.history ?rq)"
  let ?out = "\<lparr>reply = \<lparr>candidates = [\<lparr>finish_reason = 1\<rparr>], response_text = Inr ''Hello''\<rparr>,
               session_history =
                 Inr (?h @ [\<lparr>c_role = ''user'', c_parts = [TextPart (message ?rq)]\<rparr>,
                            \<lparr>c_role = ''model'', c_parts = [TextPart ''Hello'']\<rparr>])\<rparr>"
  have a: "replying ''Hello'' (model test_server) 0 ?h (message ?rq) = Inr ?out"
    by (simp add: replying_def)
  have b: "\<not> blocked (reply ?out)"
    by (simp add: blocked_def)
  have c: "response_text (reply ?out) = Inr ''Hello''"
    by simp
  have d: "session_history ?out =
             Inr (?h @ [\<lparr>c_role = ''user'', c_parts = [TextPart (message ?rq)]\<rparr>,
                        \<lparr>c_role = ''model'', c_parts = [TextPart ''Hello'']\<rparr>])"
    by simp
  from chat_success [of "replying ''Hello''" test_server 0 ?rq ?out "''Hello''", OF a b c d]
  show ?thesis
    by auto
qed

text \<open>
  C1, as the claim states it, fails where the provider's text is empty: the message is
  non-empty, the call returns, the response is not taken for blocked, the session holds the
  two new turns, and the handler's response is the empty string.
\<close>

theorem chat_empty_reply_counterexample:
  "message empty_reply_request \<noteq> [] \<and>
   replying [] (model test_server) 0 (genai_history (ChatRequest.history empty_reply_request))
       (message empty_reply_request) =
     Inr \<lparr>reply = \<lparr>candidates = [\<lparr>finish_reason = 1\<rparr>], response_text = Inr []\<rparr>,
          session_history =
            Inr [\<lparr>c_role = ''user'', c_parts = [TextPart ''Hi'']\<rparr>,
                 \<lparr>c_role = ''model'', c_parts = [TextPart []]\<rparr>]\<rparr> \<and>
   \<not> blocked \<lparr>candidates = [\<lparr>finish_reason = 1\<rparr>], response_text = Inr []\<rparr> \<and>
   fst (chat_with_sova (replying []) test_server 0 empty_reply_request) =
     Inr \<lparr>response = [],
          history = [\<lparr>role = ''user'', parts = [\<lparr>text_of = ''Hi''\<rparr>]\<rparr>,
                     \<lparr>role = ''model'', parts = [\<lparr>text_of = []\<rparr>]\<rparr>]\<rparr>"
  by (simp add: empty_reply_request_def replying_def blocked_def chat_with_sova_def chat_try_def
      genai_history_def updated_history_def)

subsection \<open>A blocked reply\<close>

text \<open>
  What line 137 does: a response whose first candidate carries finish reason 4 gives the
  fixed refusal string and the inbound history as it came, with nothing appended.
\<close>

lemma finish_reason_4_refused:
  assumes "up (model srv) n (genai_history (ChatRequest.history rq)) (message rq) = Inr out"
    and "candidates (reply out) = c # cs"
    and "finish_reason c = 4"
  shows "fst (chat_with_sova up srv n rq) =
           Inr \<lparr>response = refusal, history = ChatRequest.history rq\<rparr>"
  using assms by (simp add: chat_with_sova_def chat_try_def blocked_def)

lemma finish_reason_4_example:
  "fst (chat_with_sova suppressing test_server 0 safety_request) =
     Inr \<lparr>response = refusal, history = ChatRequest.history safety_request\<rparr>"
  by (simp add: suppressing_def chat_with_sova_def chat_try_def blocked_def)

text \<open>
  C2.  The claim is that a reply suppressed by the content-safety filter gives the fixed
  refusal string and the inbound history.  The code tests for finish reason 4, which its
  comment calls the safety block; the provider marks a suppressed reply with SAFETY, which
  is 3.  On such a reply the test of line 137 is false and the caller gets status 500,
  whether the suppressed reply reaches the handler as a response or as the exception that
  \<open>send_message\<close> raises; in neither case does the caller get the refusal.
\<close>

theorem chat_safety_suppressed:
  "SAFETY \<noteq> 4 \<and> RECITATION = 4 \<and>
   blocked \<lparr>candidates = [\<lparr>finish_reason = RECITATION\<rparr>],
             response_text = Inl (Exception ''no valid part'')\<rparr> \<and>
   \<not> blocked \<lparr>candidates = [\<lparr>finish_reason = SAFETY\<rparr>],
               response_text = Inl (Exception ''no valid part'')\<rparr> \<and>
   fst (chat_with_sova safety_suppressed test_server 0 safety_request) =
     Inl (HTTPException 500 ''Internal server error: broken response'') \<and>
   fst (chat_with_sova safety_stopped test_server 0 safety_request) =
     Inl (HTTPException 500 ''Internal server error: finish_reason: SAFETY'') \<and>
   fst (chat_with_sova safety_suppressed test_server 0 safety_request) \<noteq>
     Inr \<lparr>response = refusal, history = ChatRequest.history safety_request\<rparr> \<and>
   fst (chat_with_sova safety_stopped test_server 0 safety_request) \<noteq>
     Inr \<lparr>response = refusal, history = ChatRequest.history safety_request\<rparr>"
  by (simp add: SAFETY_def RECITATION_def blocked_def safety_suppressed_def safety_stopped_def
      chat_with_sova_def chat_try_def)

subsection \<open>Exceptions\<close>

text \<open>
  C4.  Whatever raises inside the handler (the outbound call, reading the session's
  history, reading the response's text), the handler answers with status 500 and the
  detail \<open>Internal server error: \<close> followed by the exception's text, which is never
  empty.  It has made one outbound call and no second one, it returns no response body,
  and the process serves the requests that follow.
\<close>

theorem chat_exception:
  assumes "up (model srv) n (genai_history (ChatRequest.history rq)) (message rq) = Inl e \<or>
           (\<exists>out. up (model srv) n (genai_history (ChatRequest.history rq)) (message rq) = Inr out \<and>
                  \<not> blocked (reply out) \<and>
                  (session_history out = Inl e \<or>
                   (\<exists>cs. session_history out = Inr cs \<and> response_text (reply out) = Inl e)))"
  shows "chat_with_sova up srv n rq =
           (Inl (HTTPException 500 (''Internal server error: '' @ str e)), Suc n) \<and>
         status (fst (chat_with_sova up srv n rq)) = 500 \<and>
         detail (HTTPException 500 (''Internal server error: '' @ str e)) \<noteq> [] \<and>
         fst (serve up srv n (POST_chat rq # rqs)) =
           Inl (HTTPException 500 (''Internal server error: '' @ str e)) #
           fst (serve up srv (Suc n) rqs)"
proof -
  from assms have t: "chat_try up (model srv) n rq = Inl e"
    by (auto simp: chat_try_def)
  then have r: "chat_with_sova up srv n rq =
           (Inl (HTTPException 500 (''Internal server error: '' @ str e)), Suc n)"
    by (simp add: chat_with_sova_def)
  then have "handle up srv n (POST_chat rq) =
           (Inl (HTTPException 500 (''Internal server error: '' @ str e)), Suc n)"
    by (simp add: handle_def)
  then have "fst (serve up srv n (POST_chat rq # rqs)) =
           Inl (HTTPException 500 (''Internal server error: '' @ str e)) #
           fst (serve up srv (Suc n) rqs)"
    by (simp split: prod.splits)
  with r show ?thesis
    by (simp add: status_def)
qed

theorem chat_exception_witness:
  "chat_with_sova (failing ''quota exceeded'') test_server 0 \<lparr>message = ''Hi'', history = []\<rparr> =
     (Inl (HTTPException 500 ''Internal server error: quota exceeded''), 1) \<and>
   fst (serve (failing ''quota exceeded'') test_server 0
          [POST_chat \<lparr>message = ''Hi'', history = []\<rparr>, GET_root]) =
     [Inl (HTTPException 500 ''Internal server error: quota exceeded''),
      Inr (RootBody (root test_server))]"
proof -
  let ?rq = "\<lparr>message = ''Hi'', history = []\<rparr>"
  have a: "failing ''quota exceeded'' (model test_server) 0
             (genai_history (ChatRequest.history ?rq)) (message ?rq) =
           Inl (Exception ''quota exceeded'')"
    by (simp add: failing_def)
  from chat_exception [of "failing ''quota exceeded''" test_server 0 ?rq
      "Exception ''quota exceeded''" "[GET_root]"] a
  show ?thesis
    by (simp add: handle_def)
qed

text \<open>
  C9.  When the response carries no candidate, the test of line 137 is false, so the
  refusal branch is not taken.  If reading the response's text then raises (the provider's
  behaviour for a response without candidates, taken as a premise), the caller gets status
  500: the detail carries that exception, or the one raised earlier by reading the
  session's history.  The caller never gets the refusal string with the inbound history.
\<close>

theorem chat_no_candidates:
  assumes "up (model srv) n (genai_history (ChatRequest.history rq)) (message rq) = Inr out"
    and "candidates (reply out) = []"
    and "response_text (reply out) = Inl e"
  shows "\<not> blocked (reply out) \<and>
         (\<exists>e'. fst (chat_with_sova up srv n rq) =
                 Inl (HTTPException 500 (''Internal server error: '' @ str e')) \<and>
               (session_history out = Inl e' \<or> e' = e)) \<and>
         status (fst (chat_with_sova up srv n rq)) = 500 \<and>
         fst (chat_with_sova up srv n rq) \<noteq>
           Inr \<lparr>response = refusal, history = ChatRequest.history rq\<rparr>"
  using assms
  by (cases "session_history out")
    (auto simp: chat_with_sova_def chat_try_def blocked_def status_def)

theorem chat_no_candidates_witness:
  "fst (chat_with_sova prompt_blocked test_server 0 \<lparr>message = ''Hi'', history = []\<rparr>) =
     Inl (HTTPException 500 ''Internal server error: no candidates'')"
proof -
  let ?rq = "\<lparr>message = ''Hi'', history = []\<rparr>"
  let ?out = "\<lparr>reply = \<lparr>candidates = [], response_text = Inl (Exception ''no candidates'')\<rparr>,
               session_history =
                 Inr (genai_history (ChatRequest.history ?rq) @
                      [\<lparr>c_role = ''user'', c_parts = [TextPart (message ?rq)]\<rparr>])\<rparr>"
  have a: "prompt_blocked (model test_server) 0 (genai_history (ChatRequest.history ?rq))
             (message ?rq) = Inr ?out"
    by (simp add: prompt_blocked_def)
  have b: "candidates (reply ?out) = []"
    by simp
  have c: "response_text (reply ?out) = Inl (Exception ''no candidates'')"
    by simp
  from chat_no_candidates [of prompt_blocked test_server 0 ?rq ?out
      "Exception ''no candidates''", OF a b c]
  show ?thesis
    by auto
qed

subsection \<open>Startup\<close>

text \<open>
  C5.  When the credential variable is absent from the environment, startup ends the
  process with status 1, which is not zero, and there is no server: no request is served.
\<close>

theorem startup_without_credential:
  assumes "environ ''GEMINI_API_KEY'' = None"
  shows "startup environ = Exited 1 \<and>
         (\<exists>c. startup environ = Exited c \<and> c \<noteq> 0) \<and>
         (\<forall>srv. startup environ \<noteq> Serving srv)"
  using assms by (simp add: startup_def)

theorem startup_without_credential_witness:
  "startup Map.empty = Exited 1"
  using startup_without_credential [of Map.empty] by simp

subsection \<open>Roles\<close>

lemma genai_history_roles: "map c_role (genai_history h) = map role h"
  by (simp add: genai_history_def)

lemma genai_history_unfolded:
  "map (\<lambda>entry. \<lparr>c_role = role entry,
                  c_parts = map (\<lambda>p_part. TextPart (text_of p_part)) (parts entry)\<rparr>) h =
   genai_history h"
  by (simp add: genai_history_def genai_parts_def)

text \<open>
  C6, as the code has it.  The role of an inbound entry is any string.  The handler asks
  the provider with the inbound entries in their order, each with its role and its text
  parts as they came: whatever the roles are, when the provider answers that very history
  with a reply that is not taken for blocked, whose text reads as \<open>t\<close>, and whose
  session holds that history followed by new turns, the handler returns \<open>t\<close> and the
  inbound entries, roles unchanged, followed by the new turns.
\<close>

theorem chat_roles_unrestricted:
  assumes "up (model srv) n
             (map (\<lambda>entry. \<lparr>c_role = role entry,
                             c_parts = map (\<lambda>p_part. TextPart (text_of p_part)) (parts entry)\<rparr>)
                (ChatRequest.history rq))
             (message rq) = Inr out"
    and "\<not> blocked (reply out)"
    and "response_text (reply out) = Inr t"
    and "session_history out =
           Inr (map (\<lambda>entry. \<lparr>c_role = role entry,
                               c_parts = map (\<lambda>p_part. TextPart (text_of p_part)) (parts entry)\<rparr>)
                  (ChatRequest.history rq) @ new)"
  shows "map c_role
           (map (\<lambda>entry. \<lparr>c_role = role entry,
                           c_parts = map (\<lambda>p_part. TextPart (text_of p_part)) (parts entry)\<rparr>)
              (ChatRequest.history rq)) =
         map role (ChatRequest.history rq) \<and>
         (\<exists>r. fst (chat_with_sova up srv n rq) = Inr r \<and> response r = t \<and>
              ChatResponse.history r = ChatRequest.history rq @ updated_history new \<and>
              map role (take (length (ChatRequest.history rq)) (ChatResponse.history r)) =
                map role (ChatRequest.history rq))"
proof -
  have r: "map c_role
           (map (\<lambda>entry. \<lparr>c_role = role entry,
                           c_parts = map (\<lambda>p_part. TextPart (text_of p_part)) (parts entry)\<rparr>)
              (ChatRequest.history rq)) =
         map role (ChatRequest.history rq)"
    by (simp only: genai_history_unfolded genai_history_roles)
  from assms(1)
  have a: "up (model srv) n (genai_history (ChatRequest.history rq)) (message rq) = Inr out"
    by (simp only: genai_history_unfolded)
  from assms(4)
  have d: "session_history out = Inr (genai_history (ChatRequest.history rq) @ new)"
    by (simp only: genai_history_unfolded)
  have "fst (chat_with_sova up srv n rq) =
          Inr \<lparr>response = t,
               history = updated_history (genai_history (ChatRequest.history rq) @ new)\<rparr>"
    using a d assms(2,3) by (simp add: chat_with_sova_def chat_try_def)
  then have "\<exists>r. fst (chat_with_sova up srv n rq) = Inr r \<and> response r = t \<and>
              ChatResponse.history r = ChatRequest.history rq @ updated_history new \<and>
              map role (take (length (ChatRequest.history rq)) (ChatResponse.history r)) =
                map role (ChatRequest.history rq)"
    by (simp add: updated_history_append updated_genai_history)
  with r show ?thesis
    by (rule conjI)
qed

theorem chat_roles_unrestricted_witness:
  "\<exists>r. fst (chat_with_sova (replying ''ok'') test_server 0 system_role_request) = Inr r \<and>
       response r = ''ok'' \<and>
       map role (ChatResponse.history r) = [''system'', ''user'', ''model'']"
proof -
  let ?H = "map (\<lambda>entry. \<lparr>c_role = role entry,
                          c_parts = map (\<lambda>p_part. TextPart (text_of p_part)) (parts entry)\<rparr>)
              (ChatRequest.history system_role_request)"
  let ?new = "[\<lparr>c_role = ''user'', c_parts = [TextPart (message system_role_request)]\<rparr>,
               \<lparr>c_role = ''model'', c_parts = [TextPart ''ok'']\<rparr>]"
  let ?out = "\<lparr>reply = \<lparr>candidates = [\<lparr>finish_reason = 1\<rparr>], response_text = Inr ''ok''\<rparr>,
               session_history = Inr (?H @ ?new)\<rparr>"
  have a: "replying ''ok'' (model test_server) 0 ?H (message system_role_request) = Inr ?out"
    by (simp add: replying_def)
  have b: "\<not> blocked (reply ?out)"
    by (simp add: blocked_def)
  have c: "response_text (reply ?out) = Inr ''ok''"
    by simp
  have d: "session_history ?out = Inr (?H @ ?new)"
    by simp
  from chat_roles_unrestricted [of "replying ''ok''" test_server 0 system_role_request ?out
      "''ok''" ?new, OF a b c d]
  show ?thesis
    by (auto simp: system_role_request_def updated_history_def)
qed

text \<open>
  C6, as the claim states it, fails for a history entry with role \<open>system\<close>: the
  request is handled, the entry goes to the provider with that role, and the answer has
  status 200 with the entry in its history.
\<close>

theorem system_role_counterexample:
  "map role (ChatRequest.history system_role_request) = [''system''] \<and>
   ''system'' \<noteq> ''user'' \<and> ''system'' \<noteq> ''model'' \<and>
   genai_history (ChatRequest.history system_role_request) =
     [\<lparr>c_role = ''system'', c_parts = [TextPart ''obey'']\<rparr>] \<and>
   fst (chat_with_sova (replying ''ok'') test_server 0 system_role_request) =
     Inr \<lparr>response = ''ok'',
          history = [\<lparr>role = ''system'', parts = [\<lparr>text_of = ''obey''\<rparr>]\<rparr>,
                     \<lparr>role = ''user'', parts = [\<lparr>text_of = ''Hi''\<rparr>]\<rparr>,
                     \<lparr>role = ''model'', parts = [\<lparr>text_of = ''ok''\<rparr>]\<rparr>]\<rparr>"
  by (simp add: system_role_request_def replying_def blocked_def chat_with_sova_def chat_try_def
      genai_history_def genai_parts_def updated_history_def)

subsection \<open>The health check\<close>

text \<open>
  C8.  On a server that has started, \<open>GET /\<close> answers with status 200 and the
  descriptor, whose message, version and model are non-empty.  The answer is the same for
  every upstream, and the count of outbound calls is unchanged.
\<close>

theorem root_descriptor:
  assumes "startup environ = Serving srv"
  shows "handle up srv n GET_root = (Inr (RootBody (root srv)), n) \<and>
         status (fst (handle up srv n GET_root)) = 200 \<and>
         d_message (root srv) \<noteq> [] \<and> d_version (root srv) \<noteq> [] \<and> d_model (root srv) \<noteq> []"
proof -
  from assms have "app srv = the_app \<and> model srv = the_model"
    by (auto simp: startup_def split: option.splits if_splits)
  then show ?thesis
    by (simp add: handle_def status_def root_def the_app_def the_model_def)
qed

theorem root_descriptor_witness:
  "handle (failing ''down'') test_server 7 GET_root = (Inr (RootBody (root test_server)), 7) \<and>
   status (fst (handle (failing ''down'') test_server 7 GET_root)) = 200 \<and>
   d_message (root test_server) \<noteq> [] \<and> d_version (root test_server) \<noteq> [] \<and>
   d_model (root test_server) \<noteq> []"
proof -
  have a: "startup [''GEMINI_API_KEY'' \<mapsto> ''secret''] = Serving test_server"
    by (simp add: startup_def test_server_def)
  from root_descriptor [OF a, of "failing ''down''" 7] show ?thesis
    by blast
qed

subsection \<open>Parts without text\<close>

text \<open>
  C10.  Translating the session's history back drops every part that has no text and keeps
  the text parts in order, so a returned turn never has more parts than the session's turn
  and may have fewer, down to none; the turn itself is returned, with its role.
\<close>

theorem text_less_parts_dropped:
  "parts_list (ps @ OtherPart # qs) = parts_list (ps @ qs) \<and>
   parts_list (ps @ TextPart t # qs) = parts_list ps @ \<lparr>text_of = t\<rparr> # parts_list qs \<and>
   length (parts_list ps) \<le> length ps \<and>
   map role (updated_history cs) = map c_role cs \<and>
   map parts (updated_history cs) = map (\<lambda>c. parts_list (c_parts c)) cs \<and>
   updated_history [\<lparr>c_role = r, c_parts = [OtherPart, TextPart t]\<rparr>] =
     [\<lparr>role = r, parts = [\<lparr>text_of = t\<rparr>]\<rparr>] \<and>
   updated_history [\<lparr>c_role = r, c_parts = [OtherPart]\<rparr>] = [\<lparr>role = r, parts = []\<rparr>]"
  by (simp add: parts_list_append parts_list_length updated_history_def)

end
